theory Spec2Isabelle
  imports Main "HOL-Library.Word"
begin

section \<open>The Gemini Vision plugin: data\<close>

text \<open>
  The plugin is the module \<^verbatim>\<open>nonebot_plugin_gemini_vision/__init__.py\<close>. A Python
  \<^verbatim>\<open>str\<close> is a sequence of Unicode code points, so it is modelled as a list of
  naturals; \<open>ustr\<close> embeds an ASCII literal. \<^verbatim>\<open>bytes\<close> is a list of octets.
\<close>

type_synonym pystr = "nat list"
type_synonym bytes = "8 word list"

definition ustr :: "string \<Rightarrow> pystr" where
  "ustr s = map of_char s"

text \<open>
  Exceptions. \<^verbatim>\<open>FinishedException\<close> is the framework's signal raised by
  \<^verbatim>\<open>finish\<close>; it is a subclass of \<^verbatim>\<open>Exception\<close>, as is everything the
  collaborators raise in this model (\<open>Error\<close> carries \<^verbatim>\<open>str(e)\<close>). Task
  cancellation, which is not an \<^verbatim>\<open>Exception\<close>, is outside the model.
\<close>

datatype exn = FinishedException | Error pystr

text \<open>
  A message segment as \<^verbatim>\<open>to_image_data\<close> inspects it: its \<^verbatim>\<open>type\<close>, its
  \<^verbatim>\<open>data\<close> dictionary when the attribute exists, its \<^verbatim>\<open>raw\<close> attribute
  (\<open>None\<close>: no such attribute; \<open>Some None\<close>: the attribute is \<^verbatim>\<open>None\<close>), its
  \<^verbatim>\<open>url\<close> attribute, and whether it is an instance of \<^verbatim>\<open>AlconnaImage\<close>.
\<close>

record segment =
  seg_type :: pystr
  seg_data :: "(pystr \<rightharpoonup> pystr) option"
  seg_raw :: "bytes option option"
  seg_url :: "pystr option"
  is_AlconnaImage :: bool

text \<open>
  An outgoing \<^verbatim>\<open>UniMessage\<close>: its text and image segments, and the id it replies to
  when \<^verbatim>\<open>.reply(id=msg_id)\<close> was applied.
\<close>

datatype useg = Text pystr | Image bytes

record message =
  msg_content :: "useg list"
  msg_reply :: "pystr option"

record GeminiResponse =
  r_success :: bool
  r_text :: "pystr option"
  r_image :: "bytes option"
  r_error :: "pystr option"

text \<open>The \<^verbatim>\<open>Match[str]\<close> of the optional prompt argument.\<close>

record match_str =
  available :: bool
  result :: pystr

text \<open>
  Calls to the collaborators, in the order they are made: an HTTP GET, a message handed to
  the matcher's \<^verbatim>\<open>send\<close> (also inside \<^verbatim>\<open>finish\<close>), the history store's clear
  operation, the remote chat function.
\<close>

datatype event =
    HttpGet pystr
  | Send message
  | CallClear pystr
  | CallChat pystr pystr "bytes list"

type_synonym history = "pystr \<rightharpoonup> (pystr \<times> pystr) list"

record world =
  calls :: "event list"
  history :: history

text \<open>
  What the outside answers during one run: the outcome of a GET of a URL (an exception, or
  the status and the body; a URL answers the same way throughout the run), whether sending
  a message fails, and the remote chat function, which reads and updates the history.
\<close>

record env =
  http_get :: "pystr \<Rightarrow> exn + nat \<times> bytes"
  send_fails :: "message \<Rightarrow> exn option"
  chat_with_gemini :: "history \<Rightarrow> pystr \<Rightarrow> pystr \<Rightarrow> bytes list \<Rightarrow> (exn + GeminiResponse) \<times> history"

section \<open>Effects\<close>

text \<open>
  A coroutine is a function of the world returning an exception or a value, and the world
  after it. An exception keeps the effects made before it. Calls to the logger have no
  bearing on control flow and are not recorded.
\<close>

type_synonym 'a prog = "world \<Rightarrow> (exn + 'a) \<times> world"

definition ret :: "'a \<Rightarrow> 'a prog" where
  "ret x = (\<lambda>w. (Inr x, w))"

definition raise :: "exn \<Rightarrow> 'a prog" where
  "raise e = (\<lambda>w. (Inl e, w))"

definition bnd :: "'a prog \<Rightarrow> ('a \<Rightarrow> 'b prog) \<Rightarrow> 'b prog" where
  "bnd m f = (\<lambda>w. case m w of (Inl e, w') \<Rightarrow> (Inl e, w') | (Inr x, w') \<Rightarrow> f x w')"

text \<open>\<^verbatim>\<open>try: m except Exception as e: h e\<close>\<close>

definition try_except :: "'a prog \<Rightarrow> (exn \<Rightarrow> 'a prog) \<Rightarrow> 'a prog" where
  "try_except m h = (\<lambda>w. case m w of (Inl e, w') \<Rightarrow> h e w' | (Inr x, w') \<Rightarrow> (Inr x, w'))"

definition call :: "event \<Rightarrow> unit prog" where
  "call ev = (\<lambda>w. (Inr (), w\<lparr>calls := calls w @ [ev]\<rparr>))"

text \<open>\<^verbatim>\<open>gemini_command.send(m)\<close>: the message is handed to the adapter, which may raise.\<close>

definition send :: "env \<Rightarrow> message \<Rightarrow> unit prog" where
  "send env m =
     bnd (call (Send m))
       (\<lambda>_. case send_fails env m of None \<Rightarrow> ret () | Some e \<Rightarrow> raise e)"

text \<open>
  \<^verbatim>\<open>gemini_command.finish(m)\<close>: sends the message, then raises
  \<^verbatim>\<open>FinishedException\<close>; it never returns.
\<close>

definition finish :: "env \<Rightarrow> message \<Rightarrow> unit prog" where
  "finish env m = bnd (send env m) (\<lambda>_. raise FinishedException)"

text \<open>\<^verbatim>\<open>UniMessage(s)\<close> for an optional string, and \<^verbatim>\<open>.reply(id=msg_id)\<close>.\<close>

definition UniMessage :: "pystr option \<Rightarrow> message" where
  "UniMessage s =
     \<lparr>msg_content = (case s of None \<Rightarrow> [] | Some t \<Rightarrow> [Text t]), msg_reply = None\<rparr>"

definition reply :: "message \<Rightarrow> pystr \<Rightarrow> message" where
  "reply m msg_id = m\<lparr>msg_reply := Some msg_id\<rparr>"

section \<open>String constants of the module\<close>

definition help_str :: pystr where
  "help_str =
    [0x47, 0x65, 0x6d, 0x69, 0x6e, 0x69, 0x20, 0x56, 0x69, 0x73, 0x69, 0x6f, 0x6e, 0x20,
     0x5e2e, 0x52a9, 0xa, 0x2f, 0x67, 0x65, 0x6d, 0x69, 0x6e, 0x69, 0x20, 0x3c, 0x95ee,
     0x9898, 0x3e, 0x20, 0x2d, 0x20, 0x4e0e, 0x47, 0x65, 0x6d, 0x69, 0x6e, 0x69, 0x804a,
     0x5929, 0xff0c, 0x53ef, 0x5305, 0x542b, 0x4ee5, 0x4e0b, 0x7279, 0x6b8a, 0x6307,
     0x4ee4, 0xff1a, 0xa, 0x2d, 0x20, 0x56de, 0x590d, 0x56fe, 0x7247, 0x20, 0x2b, 0x20,
     0x95ee, 0x9898, 0xff1a, 0x5206, 0x6790, 0x56fe, 0x7247, 0x5185, 0x5bb9, 0xff08,
     0x652f, 0x6301, 0x591a, 0x56fe, 0xff09, 0x3001, 0x7f16, 0x8f91, 0x56fe, 0x7247, 0xa,
     0x2d, 0x20, 0x22, 0x6e05, 0x9664, 0x5386, 0x53f2, 0x22, 0xff1a, 0x6e05, 0x9664,
     0x5bf9, 0x8bdd, 0x5386, 0x53f2, 0x8bb0, 0x5f55, 0xa, 0x2f, 0x67, 0x65, 0x6d, 0x69,
     0x6e, 0x69, 0x5f, 0x68, 0x65, 0x6c, 0x70, 0x20, 0x2d, 0x20, 0x67e5, 0x770b, 0x5e2e,
     0x52a9, 0x4fe1, 0x606f]"

text \<open>The clear-history trigger phrases of \<^verbatim>\<open>handle_gemini\<close>, in the source's order.\<close>

definition clear_triggers :: "pystr list" where
  "clear_triggers =
    [[0x6e05, 0x9664, 0x5386, 0x53f2],
     [0x6e05, 0x9664, 0x5bf9, 0x8bdd, 0x5386, 0x53f2],
     ustr ''clear'',
     ustr ''exit'']"

definition history_cleared_str :: pystr where
  "history_cleared_str = [0x5bf9, 0x8bdd, 0x5386, 0x53f2, 0x5df2, 0x6e05, 0x9664]"

definition history_not_found_str :: pystr where
  "history_not_found_str = [0x6ca1, 0x6709, 0x627e, 0x5230, 0x5bf9, 0x8bdd, 0x5386, 0x53f2]"

definition processing_str :: pystr where
  "processing_str =
    [0x6b63, 0x5728, 0x5904, 0x7406, 0x60a8, 0x7684, 0x8bf7, 0x6c42, 0xff0c, 0x8bf7, 0x7a0d,
     0x7b49, 0x2e, 0x2e, 0x2e]"

definition processing_images_prefix :: pystr where
  "processing_images_prefix =
    [0x6b63, 0x5728, 0x5904, 0x7406, 0x60a8, 0x7684, 0x8bf7, 0x6c42, 0xff08, 0x5305, 0x542b,
     0x20]"

definition processing_images_suffix :: pystr where
  "processing_images_suffix =
    [0x20, 0x5f20, 0x56fe, 0x7247, 0xff09, 0xff0c, 0x8bf7, 0x7a0d, 0x7b49, 0x2e, 0x2e, 0x2e]"

definition request_error_prefix :: pystr where
  "request_error_prefix = [0x5904, 0x7406, 0x8bf7, 0x6c42, 0x65f6, 0x51fa, 0x9519, 0x3a, 0x20]"

text \<open>\<^verbatim>\<open>str(n)\<close> for a length: the decimal digits.\<close>

fun str_nat :: "nat \<Rightarrow> pystr" where
  "str_nat n = (if n < 10 then [48 + n] else str_nat (n div 10) @ [48 + n mod 10])"

declare str_nat.simps [simp del]

section \<open>Image collection\<close>

definition get_image_data_from_url :: "env \<Rightarrow> pystr \<Rightarrow> bytes option prog" where
  "get_image_data_from_url env url =
     try_except
       (bnd (call (HttpGet url))
          (\<lambda>_. case http_get env url of
                  Inl e \<Rightarrow> raise e
                | Inr (status, body) \<Rightarrow>
                    if status \<noteq> 200 then ret None else ret (Some body)))
       (\<lambda>e. ret None)"

text \<open>
  Both branches return from inside their \<^verbatim>\<open>try\<close>; a branch that does not return, or
  whose exception is caught, falls through to the final \<^verbatim>\<open>return None\<close>. Reading
  \<^verbatim>\<open>segment.raw\<close> in the second branch raises when the attribute is missing.
\<close>

definition to_image_data :: "env \<Rightarrow> segment \<Rightarrow> bytes option prog" where
  "to_image_data env segment =
     (case (if seg_type segment = ustr ''image'' then seg_data segment else None) of
        Some data \<Rightarrow>
          try_except
            (case data (ustr ''url'') of
               Some img_url \<Rightarrow> get_image_data_from_url env img_url
             | None \<Rightarrow>
                 (case seg_raw segment of
                    Some (Some raw) \<Rightarrow> ret (Some raw)
                  | _ \<Rightarrow> ret None))
            (\<lambda>e. ret None)
      | None \<Rightarrow>
          if is_AlconnaImage segment then
            try_except
              (case seg_raw segment of
                 None \<Rightarrow> raise (Error (ustr ''AttributeError''))
               | Some (Some raw) \<Rightarrow> ret (Some raw)
               | Some None \<Rightarrow>
                   (case seg_url segment of
                      Some url \<Rightarrow> get_image_data_from_url env url
                    | None \<Rightarrow> ret None))
              (\<lambda>e. ret None)
          else ret None)"

text \<open>\<^verbatim>\<open>if img_bytes:\<close> holds for bytes that are neither \<^verbatim>\<open>None\<close> nor empty.\<close>

definition truthy :: "bytes option \<Rightarrow> bool" where
  "truthy img_bytes = (case img_bytes of None \<Rightarrow> False | Some b \<Rightarrow> b \<noteq> [])"

text \<open>The \<^verbatim>\<open>for\<close> loop of \<^verbatim>\<open>extract_images_from_message\<close>, with \<^verbatim>\<open>image_list\<close>.\<close>

fun extract_loop :: "env \<Rightarrow> segment list \<Rightarrow> bytes list \<Rightarrow> bytes list prog" where
  "extract_loop env [] image_list = ret image_list"
| "extract_loop env (segment # rest) image_list =
     bnd (to_image_data env segment)
       (\<lambda>img_bytes.
          if truthy img_bytes then extract_loop env rest (image_list @ [the img_bytes])
          else extract_loop env rest image_list)"

definition extract_images_from_message :: "env \<Rightarrow> segment list \<Rightarrow> bytes list prog" where
  "extract_images_from_message env message =
     (if message = [] then ret [] else extract_loop env message [])"

text \<open>
  The loop over the replied-to message inside the first \<^verbatim>\<open>try\<close> of
  \<^verbatim>\<open>collect_images\<close>. \<^verbatim>\<open>image_list\<close> is appended to in place, so an exception
  leaves the loop with what was appended so far, and the \<^verbatim>\<open>except\<close> clause only logs.
\<close>

fun reply_loop :: "env \<Rightarrow> segment list \<Rightarrow> bytes list \<Rightarrow> bytes list prog" where
  "reply_loop env [] image_list = ret image_list"
| "reply_loop env (segment # rest) image_list =
     (if is_AlconnaImage segment then
        (\<lambda>w. case to_image_data env segment w of
                (Inl e, w') \<Rightarrow> (Inr image_list, w')
              | (Inr img_bytes, w') \<Rightarrow>
                  (if truthy img_bytes then reply_loop env rest (image_list @ [the img_bytes]) w'
                   else reply_loop env rest image_list w'))
      else reply_loop env rest image_list)"

text \<open>
  \<open>reply\<close> is what \<^verbatim>\<open>ext.get_reply(msg_id)\<close> gives: \<open>None\<close> when the command does
  not reply to a message, else the outcome of \<^verbatim>\<open>UniMessage.generate\<close> on the replied
  message: an exception or its segments. \<open>message\<close> is \<^verbatim>\<open>event.get_message()\<close>.
\<close>

definition collect_images ::
  "env \<Rightarrow> (exn + segment list) option \<Rightarrow> segment list \<Rightarrow> bytes list prog" where
  "collect_images env reply_rec message =
     bnd (case reply_rec of
            None \<Rightarrow> ret []
          | Some (Inl e) \<Rightarrow> ret []
          | Some (Inr uni_reply) \<Rightarrow> reply_loop env uni_reply [])
       (\<lambda>image_list.
          try_except
            (bnd (extract_images_from_message env message)
               (\<lambda>message_images. ret (image_list @ message_images)))
            (\<lambda>e. ret image_list))"

section \<open>Replies\<close>

definition send_gemini_response :: "env \<Rightarrow> GeminiResponse \<Rightarrow> pystr \<Rightarrow> unit prog" where
  "send_gemini_response env response msg_id =
     (if \<not> r_success response then
        bnd (finish env (UniMessage (r_error response))) (\<lambda>_. ret ())
      else
        let msg = UniMessage None;
            msg = (case r_text response of
                     Some t \<Rightarrow> if t \<noteq> [] then msg\<lparr>msg_content := msg_content msg @ [Text t]\<rparr> else msg
                   | None \<Rightarrow> msg);
            msg = (case r_image response of
                     Some b \<Rightarrow> if b \<noteq> [] then msg\<lparr>msg_content := msg_content msg @ [Image b]\<rparr> else msg
                   | None \<Rightarrow> msg)
        in finish env (reply msg msg_id))"

text \<open>
  Modelled from the spec: \<^verbatim>\<open>clear_conversation_history\<close> lives in the module
  \<^verbatim>\<open>core\<close>, which is not among the sources. The spec gives it as
  "clear(user_id) -> bool (true if an entry existed and was removed, false otherwise)" on
  the process-wide map from user id to conversation state.
\<close>

definition clear_conversation_history :: "pystr \<Rightarrow> bool prog" where
  "clear_conversation_history user_id =
     (\<lambda>w. (Inr (history w user_id \<noteq> None),
            w\<lparr>calls := calls w @ [CallClear user_id],
              history := (history w)(user_id := None)\<rparr>))"

definition handle_clear_history :: "env \<Rightarrow> pystr \<Rightarrow> pystr \<Rightarrow> unit prog" where
  "handle_clear_history env user_id msg_id =
     bnd (clear_conversation_history user_id)
       (\<lambda>success.
          if success then finish env (reply (UniMessage (Some history_cleared_str)) msg_id)
          else finish env (reply (UniMessage (Some history_not_found_str)) msg_id))"

definition send_processing_message :: "env \<Rightarrow> bytes list \<Rightarrow> pystr \<Rightarrow> unit prog" where
  "send_processing_message env image_list msg_id =
     (if image_list \<noteq> [] \<and> length image_list > 0 then
        send env
          (reply
             (UniMessage
                (Some (processing_images_prefix @ str_nat (length image_list)
                       @ processing_images_suffix)))
             msg_id)
      else send env (reply (UniMessage (Some processing_str)) msg_id))"

text \<open>The remote chat function of the module \<^verbatim>\<open>core\<close>, a parameter of the model.\<close>

definition chat :: "env \<Rightarrow> pystr \<Rightarrow> pystr \<Rightarrow> bytes list \<Rightarrow> GeminiResponse prog" where
  "chat env prompt user_id image_list =
     (\<lambda>w. case chat_with_gemini env (history w) prompt user_id image_list of
             (r, h') \<Rightarrow>
               (r, w\<lparr>calls := calls w @ [CallChat prompt user_id image_list],
                     history := h'\<rparr>))"

definition process_gemini_request ::
  "env \<Rightarrow> pystr \<Rightarrow> pystr \<Rightarrow> bytes list \<Rightarrow> pystr \<Rightarrow> unit prog" where
  "process_gemini_request env prompt_text user_id image_list msg_id =
     try_except
       (bnd (chat env prompt_text user_id image_list)
          (\<lambda>response. send_gemini_response env response msg_id))
       (\<lambda>e. case e of
               FinishedException \<Rightarrow> ret ()
             | Error s \<Rightarrow> finish env (UniMessage (Some (request_error_prefix @ s))))"

text \<open>\<^verbatim>\<open>str(session.id1)\<close>, where \<^verbatim>\<open>id1\<close> is an optional string.\<close>

definition str_id1 :: "pystr option \<Rightarrow> pystr" where
  "str_id1 id1 = (case id1 of None \<Rightarrow> ustr ''None'' | Some s \<Rightarrow> s)"

definition handle_gemini ::
  "env \<Rightarrow> match_str \<Rightarrow> pystr \<Rightarrow> pystr option \<Rightarrow> (exn + segment list) option \<Rightarrow> segment list
     \<Rightarrow> unit prog" where
  "handle_gemini env prompt msg_id id1 reply_rec message =
     (let user_id = str_id1 id1 in
      bnd (if \<not> available prompt \<or> result prompt = []
           then finish env (reply (UniMessage (Some help_str)) msg_id)
           else ret ())
        (\<lambda>_. let prompt_text = result prompt in
             bnd (if prompt_text \<in> set clear_triggers
                  then handle_clear_history env user_id msg_id
                  else ret ())
               (\<lambda>_. bnd (collect_images env reply_rec message)
                  (\<lambda>image_list.
                     bnd (send_processing_message env image_list msg_id)
                       (\<lambda>_. process_gemini_request env prompt_text user_id image_list
                              msg_id)))))"

definition handle_help :: "env \<Rightarrow> unit prog" where
  "handle_help env = finish env (UniMessage (Some help_str))"

section \<open>Auxiliary notions for the statements\<close>

definition w0 :: world where
  "w0 = \<lparr>calls = [], history = Map.empty\<rparr>"

text \<open>
  What \<open>to_image_data\<close> returns for a segment, and the calls it makes. Both are read off a
  run from the empty world; \<open>to_image_data_eq\<close> below shows that they describe every run.
\<close>

definition image_data_of :: "env \<Rightarrow> segment \<Rightarrow> bytes option" where
  "image_data_of env s = (case fst (to_image_data env s w0) of Inr v \<Rightarrow> v | Inl e \<Rightarrow> None)"

definition gets_of :: "env \<Rightarrow> segment \<Rightarrow> event list" where
  "gets_of env s = calls (snd (to_image_data env s w0))"

text \<open>The segments that one of the two branches of \<open>to_image_data\<close> accepts.\<close>

definition is_image_segment :: "segment \<Rightarrow> bool" where
  "is_image_segment s \<longleftrightarrow>
     (seg_type s = ustr ''image'' \<and> seg_data s \<noteq> None) \<or> is_AlconnaImage s"

text \<open>The segments of the replied-to message that \<open>collect_images\<close> loops over.\<close>

definition reply_images :: "(exn + segment list) option \<Rightarrow> segment list" where
  "reply_images reply_rec =
     (case reply_rec of Some (Inr uni_reply) \<Rightarrow> filter is_AlconnaImage uni_reply | _ \<Rightarrow> [])"

text \<open>The exception that leaves \<open>finish env m\<close>.\<close>

definition finish_exn :: "env \<Rightarrow> message \<Rightarrow> exn" where
  "finish_exn env m = (case send_fails env m of None \<Rightarrow> FinishedException | Some e \<Rightarrow> e)"

text \<open>The body of the \<^verbatim>\<open>try\<close> of \<open>process_gemini_request\<close>.\<close>

definition call_and_respond ::
  "env \<Rightarrow> pystr \<Rightarrow> pystr \<Rightarrow> bytes list \<Rightarrow> pystr \<Rightarrow> unit prog" where
  "call_and_respond env prompt_text user_id image_list msg_id =
     bnd (chat env prompt_text user_id image_list)
       (\<lambda>response. send_gemini_response env response msg_id)"

section \<open>Concrete inputs\<close>

definition ex_ok_response :: GeminiResponse where
  "ex_ok_response = \<lparr>r_success = True, r_text = None, r_image = Some [5, 6], r_error = None\<rparr>"

definition ex_failed_response :: GeminiResponse where
  "ex_failed_response =
     \<lparr>r_success = False, r_text = Some (ustr ''t''), r_image = Some [5], r_error = Some (ustr ''quota'')\<rparr>"

text \<open>
  An outside where one URL answers 200 with two bytes, one answers 200 with an empty body,
  one answers 404, and every other GET raises; every send succeeds; the chat function
  fails for the prompt \<open>fail\<close>, raises for \<open>boom\<close> and returns an image otherwise.
\<close>

definition ex_env :: env where
  "ex_env =
     \<lparr>http_get = (\<lambda>u. if u = ustr ''ok'' then Inr (200, [1, 2])
                     else if u = ustr ''empty'' then Inr (200, [])
                     else if u = ustr ''missing'' then Inr (404, [9])
                     else Inl (Error (ustr ''timeout''))),
      send_fails = (\<lambda>m. None),
      chat_with_gemini = (\<lambda>h p u imgs.
                     if p = ustr ''fail'' then (Inr ex_failed_response, h)
                     else if p = ustr ''boom'' then (Inl (Error (ustr ''boom'')), h)
                     else (Inr ex_ok_response, h))\<rparr>"

definition ex_text_seg :: segment where
  "ex_text_seg =
     \<lparr>seg_type = ustr ''text'', seg_data = Some [ustr ''text'' \<mapsto> ustr ''hi''],
      seg_raw = None, seg_url = None, is_AlconnaImage = False\<rparr>"

definition ex_url_seg :: "pystr \<Rightarrow> segment" where
  "ex_url_seg u =
     \<lparr>seg_type = ustr ''image'', seg_data = Some [ustr ''url'' \<mapsto> u],
      seg_raw = None, seg_url = None, is_AlconnaImage = False\<rparr>"

definition ex_file_seg :: segment where
  "ex_file_seg =
     \<lparr>seg_type = ustr ''image'', seg_data = Some [ustr ''file'' \<mapsto> ustr ''a.png''],
      seg_raw = Some (Some [8]), seg_url = None, is_AlconnaImage = False\<rparr>"

text \<open>
  An \<^verbatim>\<open>Image\<close> segment of the unified message library, as \<open>to_image_data\<close>
  sees it: its \<^verbatim>\<open>type\<close> is \<open>image\<close>, its \<^verbatim>\<open>data\<close> dictionary holds the
  key \<open>url\<close> (the only key that is read), and it has the attributes \<^verbatim>\<open>raw\<close> and
  \<^verbatim>\<open>url\<close>. Here it carries the URL \<open>u\<close> and the raw bytes \<open>raw\<close>, if any.
\<close>

definition ex_image_seg :: "bytes option \<Rightarrow> pystr \<Rightarrow> segment" where
  "ex_image_seg raw u =
     \<lparr>seg_type = ustr ''image'', seg_data = Some [ustr ''url'' \<mapsto> u],
      seg_raw = Some raw, seg_url = Some u, is_AlconnaImage = True\<rparr>"


definition ex_no_prompt :: match_str where
  "ex_no_prompt = \<lparr>available = False, result = []\<rparr>"


section \<open>What each function computes\<close>

lemma get_image_data_from_url_eq:
  "get_image_data_from_url env u w =
     (Inr (case http_get env u of Inl e \<Rightarrow> None
           | Inr (st, body) \<Rightarrow> if st \<noteq> 200 then None else Some body),
      w\<lparr>calls := calls w @ [HttpGet u]\<rparr>)"
  by (simp add: get_image_data_from_url_def try_except_def bnd_def call_def ret_def raise_def
        split: sum.splits prod.splits)

lemma to_image_data_eq:
  "to_image_data env s w = (Inr (image_data_of env s), w\<lparr>calls := calls w @ gets_of env s\<rparr>)"
  by (simp add: to_image_data_def image_data_of_def gets_of_def w0_def
        get_image_data_from_url_eq try_except_def ret_def raise_def
        split: option.splits sum.splits prod.splits)

lemma extract_loop_eq:
  "extract_loop env ss acc w =
     (Inr (acc @ map the (filter truthy (map (image_data_of env) ss))),
      w\<lparr>calls := calls w @ concat (map (gets_of env) ss)\<rparr>)"
  by (induction ss arbitrary: acc w) (simp_all add: ret_def bnd_def to_image_data_eq)

lemma reply_loop_eq:
  "reply_loop env ss acc w =
     (Inr (acc @ map the (filter truthy (map (image_data_of env) (filter is_AlconnaImage ss)))),
      w\<lparr>calls := calls w @ concat (map (gets_of env) (filter is_AlconnaImage ss))\<rparr>)"
  by (induction ss arbitrary: acc w) (simp_all add: ret_def to_image_data_eq)

lemma extract_images_from_message_eq:
  "extract_images_from_message env ss w =
     (Inr (map the (filter truthy (map (image_data_of env) ss))),
      w\<lparr>calls := calls w @ concat (map (gets_of env) ss)\<rparr>)"
  by (simp add: extract_images_from_message_def extract_loop_eq ret_def)

lemma collect_images_eq:
  "collect_images env reply_rec message w =
     (Inr (map the (filter truthy (map (image_data_of env) (reply_images reply_rec)))
           @ map the (filter truthy (map (image_data_of env) message))),
      w\<lparr>calls := calls w @ concat (map (gets_of env) (reply_images reply_rec))
                 @ concat (map (gets_of env) message)\<rparr>)"
  by (simp add: collect_images_def reply_images_def bnd_def try_except_def ret_def
        reply_loop_eq extract_images_from_message_eq split: option.splits sum.splits)

lemma image_data_of_cases:
  "image_data_of env s =
     (case (if seg_type s = ustr ''image'' then seg_data s else None) of
        Some d \<Rightarrow>
          (case d (ustr ''url'') of
             Some u \<Rightarrow> (case http_get env u of Inl e \<Rightarrow> None
                        | Inr (st, body) \<Rightarrow> if st \<noteq> 200 then None else Some body)
           | None \<Rightarrow> (case seg_raw s of Some (Some b) \<Rightarrow> Some b | _ \<Rightarrow> None))
      | None \<Rightarrow>
          if is_AlconnaImage s then
            (case seg_raw s of
               None \<Rightarrow> None
             | Some (Some b) \<Rightarrow> Some b
             | Some None \<Rightarrow>
                 (case seg_url s of
                    Some u \<Rightarrow> (case http_get env u of Inl e \<Rightarrow> None
                               | Inr (st, body) \<Rightarrow> if st \<noteq> 200 then None else Some body)
                  | None \<Rightarrow> None))
          else None)"
  by (simp add: image_data_of_def to_image_data_def w0_def get_image_data_from_url_eq
        try_except_def ret_def raise_def split: option.splits sum.splits prod.splits)

lemma gets_of_cases:
  "gets_of env s =
     (case (if seg_type s = ustr ''image'' then seg_data s else None) of
        Some d \<Rightarrow> (case d (ustr ''url'') of Some u \<Rightarrow> [HttpGet u] | None \<Rightarrow> [])
      | None \<Rightarrow>
          if is_AlconnaImage s then
            (case seg_raw s of
               Some None \<Rightarrow> (case seg_url s of Some u \<Rightarrow> [HttpGet u] | None \<Rightarrow> [])
             | _ \<Rightarrow> [])
          else [])"
  by (simp add: gets_of_def to_image_data_def w0_def get_image_data_from_url_eq
        try_except_def ret_def raise_def split: option.splits sum.splits prod.splits)

lemma not_image_segment: "\<not> is_image_segment s \<Longrightarrow> image_data_of env s = None"
  by (auto simp: is_image_segment_def image_data_of_cases split: option.splits)

lemma fetch_non_200:
  assumes "gets_of env s = [HttpGet u]" and "http_get env u = Inr (st, body)" and "st \<noteq> 200"
  shows "image_data_of env s = None"
  using assms by (auto simp: gets_of_cases image_data_of_cases split: option.splits if_splits)

lemma send_eq:
  "send env m w =
     ((case send_fails env m of None \<Rightarrow> Inr () | Some e \<Rightarrow> Inl e),
      w\<lparr>calls := calls w @ [Send m]\<rparr>)"
  by (simp add: send_def bnd_def call_def ret_def raise_def split: option.splits)

lemma finish_eq:
  "finish env m w = (Inl (finish_exn env m), w\<lparr>calls := calls w @ [Send m]\<rparr>)"
  by (simp add: finish_def bnd_def send_eq raise_def finish_exn_def split: option.splits)

lemma send_gemini_response_failed_eq:
  "\<not> r_success r \<Longrightarrow>
   send_gemini_response env r msg_id w =
     (Inl (finish_exn env (UniMessage (r_error r))),
      w\<lparr>calls := calls w @ [Send (UniMessage (r_error r))]\<rparr>)"
  by (simp add: send_gemini_response_def bnd_def finish_eq)

lemma send_gemini_response_ok_eq:
  "r_success r \<Longrightarrow>
   send_gemini_response env r msg_id w =
     (let m = \<lparr>msg_content =
                  (case r_text r of Some t \<Rightarrow> if t \<noteq> [] then [Text t] else [] | None \<Rightarrow> [])
                  @ (case r_image r of Some b \<Rightarrow> if b \<noteq> [] then [Image b] else [] | None \<Rightarrow> []),
                msg_reply = Some msg_id\<rparr>
      in (Inl (finish_exn env m), w\<lparr>calls := calls w @ [Send m]\<rparr>))"
  by (simp add: send_gemini_response_def Let_def finish_eq UniMessage_def reply_def
        split: option.splits)

lemma handle_gemini_help_eq:
  "\<not> available prompt \<or> result prompt = [] \<Longrightarrow>
   handle_gemini env prompt msg_id id1 reply_rec message w =
     (Inl (finish_exn env \<lparr>msg_content = [Text help_str], msg_reply = Some msg_id\<rparr>),
      w\<lparr>calls := calls w @ [Send \<lparr>msg_content = [Text help_str], msg_reply = Some msg_id\<rparr>]\<rparr>)"
  by (simp add: handle_gemini_def Let_def bnd_def finish_eq UniMessage_def reply_def)

lemma handle_clear_history_eq:
  "handle_clear_history env user_id msg_id w =
     (let m = \<lparr>msg_content =
                  [Text (if history w user_id \<noteq> None then history_cleared_str
                         else history_not_found_str)],
                msg_reply = Some msg_id\<rparr>
      in (Inl (finish_exn env m),
          w\<lparr>calls := calls w @ [CallClear user_id, Send m],
            history := (history w)(user_id := None)\<rparr>))"
  by (simp add: handle_clear_history_def clear_conversation_history_def bnd_def finish_eq
        UniMessage_def reply_def Let_def)



lemma send_processing_message_eq:
  "send_processing_message env image_list msg_id w =
     (let m = \<lparr>msg_content =
                  [Text (if image_list \<noteq> []
                         then processing_images_prefix @ str_nat (length image_list)
                              @ processing_images_suffix
                         else processing_str)],
                msg_reply = Some msg_id\<rparr>
      in ((case send_fails env m of None \<Rightarrow> Inr () | Some e \<Rightarrow> Inl e),
          w\<lparr>calls := calls w @ [Send m]\<rparr>))"
  by (simp add: send_processing_message_def send_eq UniMessage_def reply_def Let_def)

section \<open>The claims\<close>


text \<open>
  Claim C3. When the prompt argument is absent or empty, \<open>handle_gemini\<close>
  makes exactly one call, the send of the static help text \<open>help_str\<close> as a
  reply to the triggering message, and ends there with the exception of
  \<open>finish\<close>: the history store is not touched, no processing acknowledgement
  is sent and the chat function is not called.
\<close>

theorem handle_gemini_help:
  "\<not> available prompt \<or> result prompt = [] \<Longrightarrow>
   fst (handle_gemini env prompt msg_id id1 reply_rec message w) =
     Inl (finish_exn env \<lparr>msg_content = [Text help_str], msg_reply = Some msg_id\<rparr>)
   \<and> calls (snd (handle_gemini env prompt msg_id id1 reply_rec message w)) =
       calls w @ [Send \<lparr>msg_content = [Text help_str], msg_reply = Some msg_id\<rparr>]
   \<and> history (snd (handle_gemini env prompt msg_id id1 reply_rec message w)) = history w"
  by (simp add: handle_gemini_help_eq)

text \<open>The theorem at a concrete input.\<close>

theorem handle_gemini_help_witness:
  "\<not> available ex_no_prompt
   \<and> fst (handle_gemini ex_env ex_no_prompt (ustr ''m1'') None None [ex_text_seg] w0) =
       Inl FinishedException
   \<and> calls (snd (handle_gemini ex_env ex_no_prompt (ustr ''m1'') None None [ex_text_seg] w0)) =
       [Send \<lparr>msg_content = [Text help_str], msg_reply = Some (ustr ''m1'')\<rparr>]"
proof -
  have h: "\<not> available ex_no_prompt \<or> result ex_no_prompt = []"
    by (simp add: ex_no_prompt_def)
  show ?thesis
    using handle_gemini_help [OF h, of ex_env "ustr ''m1''" None None "[ex_text_seg]" w0]
    by (simp add: finish_exn_def ex_env_def w0_def ex_no_prompt_def)
qed



text \<open>
  Claim C6. For a successful response with a non-empty image and no text
  (\<open>None\<close> or the empty string), the one message that
  \<open>send_gemini_response\<close> sends holds exactly one image attachment, that
  image, and no text.
\<close>

theorem send_gemini_response_image_only:
  "r_success r \<Longrightarrow> r_image r = Some b \<Longrightarrow> b \<noteq> [] \<Longrightarrow> r_text r = None \<or> r_text r = Some [] \<Longrightarrow>
   send_gemini_response env r msg_id w =
     (Inl (finish_exn env \<lparr>msg_content = [Image b], msg_reply = Some msg_id\<rparr>),
      w\<lparr>calls := calls w @ [Send \<lparr>msg_content = [Image b], msg_reply = Some msg_id\<rparr>]\<rparr>)"
  by (auto simp: send_gemini_response_ok_eq Let_def)

text \<open>The theorem at a concrete input.\<close>

theorem send_gemini_response_image_only_witness:
  "r_success ex_ok_response \<and> r_image ex_ok_response = Some [5, 6] \<and> [5, 6] \<noteq> ([] :: bytes)
   \<and> (r_text ex_ok_response = None \<or> r_text ex_ok_response = Some [])
   \<and> send_gemini_response ex_env ex_ok_response (ustr ''m1'') w0 =
       (Inl FinishedException,
        w0\<lparr>calls := [Send \<lparr>msg_content = [Image [5, 6]], msg_reply = Some (ustr ''m1'')\<rparr>]\<rparr>)"
proof -
  have s: "r_success ex_ok_response" by (simp add: ex_ok_response_def)
  have i: "r_image ex_ok_response = Some [5, 6]" by (simp add: ex_ok_response_def)
  have n: "[5, 6] \<noteq> ([] :: bytes)" by simp
  have t: "r_text ex_ok_response = None \<or> r_text ex_ok_response = Some []"
    by (simp add: ex_ok_response_def)
  show ?thesis
    using s i n t send_gemini_response_image_only [OF s i n t, of ex_env "ustr ''m1''" w0]
    by (simp add: finish_exn_def ex_env_def w0_def)
qed

text \<open>
  Claim C7. For a response with \<open>success\<close> false, the one message that
  \<open>send_gemini_response\<close> sends is \<open>UniMessage(response.error)\<close>:
  the error string alone, whatever the text and image fields hold, and nothing of the
  processing acknowledgement.
\<close>

theorem send_gemini_response_failure:
  "\<not> r_success r \<Longrightarrow>
   send_gemini_response env r msg_id w =
     (Inl (finish_exn env
             \<lparr>msg_content = (case r_error r of None \<Rightarrow> [] | Some e \<Rightarrow> [Text e]),
              msg_reply = None\<rparr>),
      w\<lparr>calls := calls w @
           [Send \<lparr>msg_content = (case r_error r of None \<Rightarrow> [] | Some e \<Rightarrow> [Text e]),
                  msg_reply = None\<rparr>]\<rparr>)"
  by (simp add: send_gemini_response_failed_eq UniMessage_def)

text \<open>The theorem at a concrete input.\<close>

theorem send_gemini_response_failure_witness:
  "\<not> r_success ex_failed_response
   \<and> send_gemini_response ex_env ex_failed_response (ustr ''m1'') w0 =
       (Inl FinishedException,
        w0\<lparr>calls := [Send \<lparr>msg_content = [Text (ustr ''quota'')], msg_reply = None\<rparr>]\<rparr>)"
proof -
  have f: "\<not> r_success ex_failed_response" by (simp add: ex_failed_response_def)
  show ?thesis
    using f send_gemini_response_failure [OF f, of ex_env "ustr ''m1''" w0]
    by (simp add: finish_exn_def ex_env_def w0_def ex_failed_response_def)
qed


lemma truthy_filter:
  "map the (filter truthy (map f xs)) = map (\<lambda>s. the (f s)) (filter (\<lambda>s. truthy (f s)) xs)"
  by (induction xs) simp_all

lemma not_truthy_omitted:
  "\<not> truthy (image_data_of env s) \<Longrightarrow>
   fst (extract_images_from_message env (before @ [s] @ after) w) =
     fst (extract_images_from_message env (before @ after) w)
   \<and> fst (collect_images env reply_rec (before @ [s] @ after) w) =
       fst (collect_images env reply_rec (before @ after) w)
   \<and> fst (collect_images env (Some (Inr (before @ [s] @ after))) message w) =
       fst (collect_images env (Some (Inr (before @ after))) message w)"
  by (simp add: extract_images_from_message_eq collect_images_eq reply_images_def)

lemma image_functions_return:
  "(\<exists>v. fst (get_image_data_from_url env url w) = Inr v)
   \<and> (\<exists>v. fst (to_image_data env seg w) = Inr v)
   \<and> (\<exists>v. fst (extract_images_from_message env message w) = Inr v)
   \<and> (\<exists>v. fst (collect_images env reply_rec message w) = Inr v)"
  by (simp add: get_image_data_from_url_eq to_image_data_eq extract_images_from_message_eq
        collect_images_eq)


text \<open>
  Claim C5. When handling a segment performs a GET that answers with a status other than
  200, \<open>to_image_data\<close> returns \<open>None\<close> for it, the lists of
  \<open>extract_images_from_message\<close> and \<open>collect_images\<close> are those
  of the message (or replied-to message) without that segment, and each of the four
  image-collection functions returns a value: none of them raises.
\<close>

theorem non_200_image_omitted:
  "calls (snd (to_image_data env s w)) = calls w @ [HttpGet u] \<Longrightarrow>
   http_get env u = Inr (st, body) \<Longrightarrow> st \<noteq> 200 \<Longrightarrow>
   to_image_data env s w = (Inr None, w\<lparr>calls := calls w @ [HttpGet u]\<rparr>)
   \<and> fst (extract_images_from_message env (before @ [s] @ after) w1) =
       fst (extract_images_from_message env (before @ after) w1)
   \<and> fst (collect_images env reply_rec (before @ [s] @ after) w1) =
       fst (collect_images env reply_rec (before @ after) w1)
   \<and> fst (collect_images env (Some (Inr (before @ [s] @ after))) message w1) =
       fst (collect_images env (Some (Inr (before @ after))) message w1)
   \<and> (\<exists>v. fst (get_image_data_from_url env url w1) = Inr v)
   \<and> (\<exists>v. fst (to_image_data env seg w1) = Inr v)
   \<and> (\<exists>v. fst (extract_images_from_message env message w1) = Inr v)
   \<and> (\<exists>v. fst (collect_images env reply_rec message w1) = Inr v)"
proof -
  assume c: "calls (snd (to_image_data env s w)) = calls w @ [HttpGet u]"
    and h: "http_get env u = Inr (st, body)" and n: "st \<noteq> 200"
  from c have g: "gets_of env s = [HttpGet u]"
    by (simp add: to_image_data_eq)
  from fetch_non_200 [OF g h n] have d: "image_data_of env s = None" .
  then have t: "\<not> truthy (image_data_of env s)"
    by (simp add: truthy_def)
  have 1: "to_image_data env s w = (Inr None, w\<lparr>calls := calls w @ [HttpGet u]\<rparr>)"
    using d g by (simp add: to_image_data_eq)
  show ?thesis
    using 1 not_truthy_omitted [OF t] image_functions_return by blast
qed

text \<open>The theorem at a concrete input.\<close>

theorem non_200_image_omitted_witness:
  "calls (snd (to_image_data ex_env (ex_url_seg (ustr ''missing'')) w0)) =
     calls w0 @ [HttpGet (ustr ''missing'')]
   \<and> http_get ex_env (ustr ''missing'') = Inr (404, [9]) \<and> (404 :: nat) \<noteq> 200
   \<and> fst (to_image_data ex_env (ex_url_seg (ustr ''missing'')) w0) = Inr None
   \<and> fst (extract_images_from_message ex_env
            ([ex_url_seg (ustr ''ok'')] @ [ex_url_seg (ustr ''missing'')] @ [ex_file_seg]) w0) =
       Inr [[1, 2], [8]]"
proof -
  have c: "calls (snd (to_image_data ex_env (ex_url_seg (ustr ''missing'')) w0)) =
      calls w0 @ [HttpGet (ustr ''missing'')]"
    by (simp add: to_image_data_eq gets_of_cases ex_url_seg_def)
  have h: "http_get ex_env (ustr ''missing'') = Inr (404, [9])"
    by (simp add: ex_env_def ustr_def)
  have n: "(404 :: nat) \<noteq> 200" by simp
  have e: "fst (extract_images_from_message ex_env ([ex_url_seg (ustr ''ok'')] @ [ex_file_seg]) w0) =
      Inr [[1, 2], [8]]"
    by (simp add: extract_images_from_message_eq image_data_of_cases truthy_def
          ex_url_seg_def ex_file_seg_def ex_env_def ustr_def)
  show ?thesis
    using c h n e
      non_200_image_omitted [OF c h n, of "[ex_url_seg (ustr ''ok'')]" "[ex_file_seg]" w0]
    by simp
qed



lemma truthy_map_the:
  "map the (filter truthy (map f xs)) = map (\<lambda>s. the (f s)) (filter (\<lambda>s. truthy (f s)) xs)"
  by (induction xs) simp_all

lemma not_truthy_None: "\<not> truthy None"
  by (simp add: truthy_def)

text \<open>
  Claim C1. Amended: when each of the M \<open>AlconnaImage\<close> segments of the
  replied-to message and each of the N image segments of the triggering message resolves
  to non-empty bytes, \<open>collect_images\<close> returns exactly N+M buffers: those of
  the replied-to message first, then those of the triggering message, each group in source
  order.
\<close>

theorem collect_images_referenced_first:
  "\<forall>s\<in>set uni_reply. is_AlconnaImage s \<longrightarrow> truthy (image_data_of env s) \<Longrightarrow>
   \<forall>s\<in>set message. is_image_segment s \<longrightarrow> truthy (image_data_of env s) \<Longrightarrow>
   fst (collect_images env (Some (Inr uni_reply)) message w) =
     Inr (map (\<lambda>s. the (image_data_of env s)) (filter is_AlconnaImage uni_reply)
          @ map (\<lambda>s. the (image_data_of env s)) (filter is_image_segment message))
   \<and> (\<exists>image_list. fst (collect_images env (Some (Inr uni_reply)) message w) = Inr image_list
        \<and> length image_list =
            length (filter is_AlconnaImage uni_reply) + length (filter is_image_segment message))"
proof -
  assume r: "\<forall>s\<in>set uni_reply. is_AlconnaImage s \<longrightarrow> truthy (image_data_of env s)"
    and m: "\<forall>s\<in>set message. is_image_segment s \<longrightarrow> truthy (image_data_of env s)"
  have fr: "filter (\<lambda>s. is_AlconnaImage s \<and> truthy (image_data_of env s)) uni_reply =
      filter is_AlconnaImage uni_reply"
    by (rule filter_cong) (use r in auto)
  have fm: "filter (\<lambda>s. truthy (image_data_of env s)) message = filter is_image_segment message"
  proof (rule filter_cong [OF refl])
    fix s
    assume s: "s \<in> set message"
    show "truthy (image_data_of env s) = is_image_segment s"
    proof (cases "is_image_segment s")
      case True
      with m s show ?thesis by simp
    next
      case False
      then show ?thesis by (simp add: not_image_segment not_truthy_None)
    qed
  qed
  have e: "fst (collect_images env (Some (Inr uni_reply)) message w) =
     Inr (map (\<lambda>s. the (image_data_of env s)) (filter is_AlconnaImage uni_reply)
          @ map (\<lambda>s. the (image_data_of env s)) (filter is_image_segment message))"
    by (simp add: collect_images_eq reply_images_def truthy_map_the fr fm)
  then show ?thesis by simp
qed

text \<open>The theorem at a concrete input.\<close>

theorem collect_images_referenced_first_witness:
  "is_AlconnaImage (ex_image_seg None (ustr ''ok''))
   \<and> truthy (image_data_of ex_env (ex_image_seg None (ustr ''ok'')))
   \<and> is_AlconnaImage (ex_image_seg (Some [7]) (ustr ''ok''))
   \<and> truthy (image_data_of ex_env (ex_image_seg (Some [7]) (ustr ''ok'')))
   \<and> \<not> is_AlconnaImage ex_text_seg
   \<and> is_image_segment ex_file_seg \<and> truthy (image_data_of ex_env ex_file_seg)
   \<and> \<not> is_image_segment ex_text_seg
   \<and> fst (collect_images ex_env
            (Some (Inr [ex_image_seg None (ustr ''ok''), ex_text_seg,
                        ex_image_seg (Some [7]) (ustr ''ok'')]))
            [ex_text_seg, ex_file_seg] w0) =
       Inr [[1, 2], [1, 2], [8]]"
proof -
  have a1: "is_AlconnaImage (ex_image_seg None (ustr ''ok''))"
    and a2: "is_AlconnaImage (ex_image_seg (Some [7]) (ustr ''ok''))"
    and a3: "\<not> is_AlconnaImage ex_text_seg"
    by (simp_all add: ex_image_seg_def ex_text_seg_def)
  have d1: "image_data_of ex_env (ex_image_seg None (ustr ''ok'')) = Some [1, 2]"
    and d2: "image_data_of ex_env (ex_image_seg (Some [7]) (ustr ''ok'')) = Some [1, 2]"
    and d3: "image_data_of ex_env ex_file_seg = Some [8]"
    by (simp_all add: image_data_of_cases ex_image_seg_def ex_file_seg_def ex_env_def ustr_def)
  have i1: "is_image_segment ex_file_seg" and i2: "\<not> is_image_segment ex_text_seg"
    by (simp_all add: is_image_segment_def ex_file_seg_def ex_text_seg_def ustr_def)
  have r: "\<forall>s\<in>set [ex_image_seg None (ustr ''ok''), ex_text_seg,
                   ex_image_seg (Some [7]) (ustr ''ok'')].
             is_AlconnaImage s \<longrightarrow> truthy (image_data_of ex_env s)"
    using a3 by (simp add: d1 d2 truthy_def)
  have m: "\<forall>s\<in>set [ex_text_seg, ex_file_seg].
             is_image_segment s \<longrightarrow> truthy (image_data_of ex_env s)"
    using i2 by (simp add: d3 truthy_def)
  show ?thesis
    using collect_images_referenced_first [OF r m, of w0] a1 a2 a3 i1 i2
    by (simp add: d1 d2 d3 truthy_def)
qed

text \<open>
  Claim C1. As stated the claim fails: an inline image whose GET answers 200 with an empty
  body is resolved to bytes, yet the list for this message with one image is empty.
\<close>

theorem collect_images_empty_bytes_counterexample:
  "is_image_segment (ex_url_seg (ustr ''empty''))
   \<and> fst (to_image_data ex_env (ex_url_seg (ustr ''empty'')) w0) = Inr (Some [])
   \<and> fst (collect_images ex_env (Some (Inr [])) [ex_url_seg (ustr ''empty'')] w0) = Inr []"
  by (simp add: is_image_segment_def to_image_data_eq collect_images_eq reply_images_def
        image_data_of_cases truthy_def ex_url_seg_def ex_env_def ustr_def)

text \<open>
  Claim C2. The code at an \<^verbatim>\<open>Image\<close> segment that carries raw bytes and a URL: the
  segment has type \<open>image\<close> and a data dictionary with the key \<open>url\<close>, so the first
  branch of \<open>to_image_data\<close> handles it, performs a GET of that URL and returns the
  response body, or \<open>None\<close> when the GET raises. The raw bytes are not used, although the
  \<^verbatim>\<open>AlconnaImage\<close> branch, which is never reached for it, returns them without a GET.
\<close>

theorem to_image_data_fetches_despite_raw:
  "is_AlconnaImage (ex_image_seg (Some [7]) (ustr ''ok''))
   \<and> seg_raw (ex_image_seg (Some [7]) (ustr ''ok'')) = Some (Some [7])
   \<and> to_image_data ex_env (ex_image_seg (Some [7]) (ustr ''ok'')) w0 =
       (Inr (Some [1, 2]), w0\<lparr>calls := [HttpGet (ustr ''ok'')]\<rparr>)
   \<and> seg_raw (ex_image_seg (Some [7]) (ustr ''down'')) = Some (Some [7])
   \<and> to_image_data ex_env (ex_image_seg (Some [7]) (ustr ''down'')) w0 =
       (Inr None, w0\<lparr>calls := [HttpGet (ustr ''down'')]\<rparr>)"
  by (simp add: to_image_data_eq image_data_of_cases gets_of_cases ex_image_seg_def
        ex_env_def w0_def ustr_def)

lemma process_gemini_request_eq:
  "process_gemini_request env prompt_text user_id image_list msg_id =
     try_except (call_and_respond env prompt_text user_id image_list msg_id)
       (\<lambda>e. case e of
               FinishedException \<Rightarrow> ret ()
             | Error s \<Rightarrow> finish env (UniMessage (Some (request_error_prefix @ s))))"
  by (simp add: process_gemini_request_def call_and_respond_def)

text \<open>
  Claim C8. Amended: a \<open>FinishedException\<close> from the call-and-respond path is
  swallowed by \<open>process_gemini_request\<close>, which returns without a further
  send; every other exception from that path is caught and reported to the chat as an
  error message; the \<open>finish\<close> that reports it then raises in turn, and that
  exception alone (the \<open>FinishedException\<close> signal, or the exception of a
  failed send) leaves \<open>process_gemini_request\<close>.
\<close>

theorem process_gemini_request_exceptions:
  "(call_and_respond env prompt_text user_id image_list msg_id w = (Inl FinishedException, w') \<longrightarrow>
      process_gemini_request env prompt_text user_id image_list msg_id w = (Inr (), w'))
   \<and> (call_and_respond env prompt_text user_id image_list msg_id w = (Inl (Error s), w') \<longrightarrow>
        process_gemini_request env prompt_text user_id image_list msg_id w =
          (Inl (finish_exn env
                  \<lparr>msg_content = [Text (request_error_prefix @ s)], msg_reply = None\<rparr>),
           w'\<lparr>calls := calls w' @
                [Send \<lparr>msg_content = [Text (request_error_prefix @ s)], msg_reply = None\<rparr>]\<rparr>))
   \<and> (fst (process_gemini_request env prompt_text user_id image_list msg_id w) = Inl e \<longrightarrow>
        (\<exists>t. fst (call_and_respond env prompt_text user_id image_list msg_id w) = Inl (Error t)
           \<and> e = finish_exn env
                   \<lparr>msg_content = [Text (request_error_prefix @ t)], msg_reply = None\<rparr>))"
proof (intro conjI impI)
  assume "call_and_respond env prompt_text user_id image_list msg_id w =
    (Inl FinishedException, w')"
  then show "process_gemini_request env prompt_text user_id image_list msg_id w = (Inr (), w')"
    by (simp add: process_gemini_request_eq try_except_def ret_def)
next
  assume "call_and_respond env prompt_text user_id image_list msg_id w = (Inl (Error s), w')"
  then show "process_gemini_request env prompt_text user_id image_list msg_id w =
      (Inl (finish_exn env
              \<lparr>msg_content = [Text (request_error_prefix @ s)], msg_reply = None\<rparr>),
       w'\<lparr>calls := calls w' @
            [Send \<lparr>msg_content = [Text (request_error_prefix @ s)], msg_reply = None\<rparr>]\<rparr>)"
    by (simp add: process_gemini_request_eq try_except_def finish_eq UniMessage_def)
next
  assume a: "fst (process_gemini_request env prompt_text user_id image_list msg_id w) = Inl e"
  obtain r w1 where c: "call_and_respond env prompt_text user_id image_list msg_id w = (r, w1)"
    by (cases "call_and_respond env prompt_text user_id image_list msg_id w")
  show "\<exists>t. fst (call_and_respond env prompt_text user_id image_list msg_id w) = Inl (Error t)
      \<and> e = finish_exn env
              \<lparr>msg_content = [Text (request_error_prefix @ t)], msg_reply = None\<rparr>"
  proof (cases r)
    case (Inl x)
    show ?thesis
    proof (cases x)
      case FinishedException
      with a c Inl show ?thesis
        by (simp add: process_gemini_request_eq try_except_def ret_def)
    next
      case (Error t)
      with a c Inl show ?thesis
        by (simp add: process_gemini_request_eq try_except_def finish_eq UniMessage_def)
    qed
  next
    case (Inr y)
    with a c show ?thesis
      by (simp add: process_gemini_request_eq try_except_def)
  qed
qed

lemma ex_call_and_respond_fail:
  "call_and_respond ex_env (ustr ''fail'') (ustr ''u1'') [] (ustr ''m1'') w0 =
     (Inl FinishedException,
      w0\<lparr>calls := [CallChat (ustr ''fail'') (ustr ''u1'') [],
                    Send \<lparr>msg_content = [Text (ustr ''quota'')], msg_reply = None\<rparr>]\<rparr>)"
  by (simp add: call_and_respond_def chat_def bnd_def ex_env_def w0_def
        send_gemini_response_failed_eq ex_failed_response_def finish_exn_def UniMessage_def)

lemma ex_call_and_respond_boom:
  "call_and_respond ex_env (ustr ''boom'') (ustr ''u1'') [] (ustr ''m1'') w0 =
     (Inl (Error (ustr ''boom'')), w0\<lparr>calls := [CallChat (ustr ''boom'') (ustr ''u1'') []]\<rparr>)"
  by (simp add: call_and_respond_def chat_def bnd_def ex_env_def w0_def ustr_def)

text \<open>The theorem at a concrete input.\<close>

theorem process_gemini_request_exceptions_witness:
  "process_gemini_request ex_env (ustr ''fail'') (ustr ''u1'') [] (ustr ''m1'') w0 =
     (Inr (),
      w0\<lparr>calls := [CallChat (ustr ''fail'') (ustr ''u1'') [],
                    Send \<lparr>msg_content = [Text (ustr ''quota'')], msg_reply = None\<rparr>]\<rparr>)
   \<and> process_gemini_request ex_env (ustr ''boom'') (ustr ''u1'') [] (ustr ''m1'') w0 =
       (Inl FinishedException,
        w0\<lparr>calls := [CallChat (ustr ''boom'') (ustr ''u1'') [],
                      Send \<lparr>msg_content = [Text (request_error_prefix @ ustr ''boom'')],
                            msg_reply = None\<rparr>]\<rparr>)"
proof -
  note t1 = process_gemini_request_exceptions [THEN conjunct1, THEN mp,
      OF ex_call_and_respond_fail]
  note t2 = process_gemini_request_exceptions [THEN conjunct2, THEN conjunct1, THEN mp,
      OF ex_call_and_respond_boom]
  show ?thesis
    using t1 t2 by (simp add: finish_exn_def ex_env_def w0_def)
qed

text \<open>
  Claim C8. As stated the claim fails: when the chat function raises an ordinary
  exception, the error is reported and \<open>process_gemini_request\<close> ends by
  raising \<open>FinishedException\<close>.
\<close>

theorem process_gemini_request_escape_counterexample:
  "fst (process_gemini_request ex_env (ustr ''boom'') (ustr ''u1'') [] (ustr ''m1'') w0) =
     Inl FinishedException"
  by (simp add: process_gemini_request_eq try_except_def ex_call_and_respond_boom finish_eq
        finish_exn_def)
    (simp add: ex_env_def)

text \<open>
  Claim C10. The error message of a failed response is sent without a reply id, while the
  success reply, the help reply of \<open>handle_gemini\<close>, both clear-history
  replies and the processing acknowledgement carry the triggering message id as reply id.
\<close>

theorem reply_addressing:
  "(\<not> r_success r \<longrightarrow>
      (\<exists>m. calls (snd (send_gemini_response env r msg_id w)) = calls w @ [Send m]
          \<and> msg_reply m = None))
   \<and> (r_success r \<longrightarrow>
        (\<exists>m. calls (snd (send_gemini_response env r msg_id w)) = calls w @ [Send m]
            \<and> msg_reply m = Some msg_id))
   \<and> (\<not> available prompt \<or> result prompt = [] \<longrightarrow>
        (\<exists>m. calls (snd (handle_gemini env prompt msg_id id1 reply_rec message w)) =
              calls w @ [Send m]
            \<and> msg_reply m = Some msg_id))
   \<and> (\<exists>m. calls (snd (handle_clear_history env user_id msg_id w)) =
             calls w @ [CallClear user_id, Send m]
           \<and> msg_reply m = Some msg_id)
   \<and> (\<exists>m. calls (snd (send_processing_message env image_list msg_id w)) = calls w @ [Send m]
           \<and> msg_reply m = Some msg_id)"
proof (intro conjI impI)
  assume "\<not> r_success r"
  then show "\<exists>m. calls (snd (send_gemini_response env r msg_id w)) = calls w @ [Send m]
      \<and> msg_reply m = None"
    by (simp add: send_gemini_response_failed_eq UniMessage_def)
next
  assume "r_success r"
  then show "\<exists>m. calls (snd (send_gemini_response env r msg_id w)) = calls w @ [Send m]
      \<and> msg_reply m = Some msg_id"
    by (simp add: send_gemini_response_ok_eq Let_def)
next
  assume "\<not> available prompt \<or> result prompt = []"
  then show "\<exists>m. calls (snd (handle_gemini env prompt msg_id id1 reply_rec message w)) =
        calls w @ [Send m]
      \<and> msg_reply m = Some msg_id"
    by (simp add: handle_gemini_help_eq)
next
  show "\<exists>m. calls (snd (handle_clear_history env user_id msg_id w)) =
        calls w @ [CallClear user_id, Send m]
      \<and> msg_reply m = Some msg_id"
    by (simp add: handle_clear_history_eq Let_def)
next
  show "\<exists>m. calls (snd (send_processing_message env image_list msg_id w)) = calls w @ [Send m]
      \<and> msg_reply m = Some msg_id"
    by (simp add: send_processing_message_eq Let_def)
qed

text \<open>The theorem at a concrete input.\<close>

theorem reply_addressing_witness:
  "\<not> r_success ex_failed_response
   \<and> (\<exists>m. calls (snd (send_gemini_response ex_env ex_failed_response (ustr ''m1'') w0)) =
            calls w0 @ [Send m]
          \<and> msg_reply m = None)
   \<and> r_success ex_ok_response
   \<and> (\<exists>m. calls (snd (send_gemini_response ex_env ex_ok_response (ustr ''m1'') w0)) =
            calls w0 @ [Send m]
          \<and> msg_reply m = Some (ustr ''m1''))
   \<and> \<not> available ex_no_prompt
   \<and> (\<exists>m. calls (snd (handle_gemini ex_env ex_no_prompt (ustr ''m1'') None None [] w0)) =
            calls w0 @ [Send m]
          \<and> msg_reply m = Some (ustr ''m1''))"
proof -
  have f: "\<not> r_success ex_failed_response"
    by (simp add: ex_failed_response_def)
  have s: "r_success ex_ok_response"
    by (simp add: ex_ok_response_def)
  have n: "\<not> available ex_no_prompt"
    by (simp add: ex_no_prompt_def)
  then have h: "\<not> available ex_no_prompt \<or> result ex_no_prompt = []"
    by simp
  note t1 = reply_addressing [THEN conjunct1, THEN mp, OF f]
  note t2 = reply_addressing [THEN conjunct2, THEN conjunct1, THEN mp, OF s]
  note t3 = reply_addressing [THEN conjunct2, THEN conjunct2, THEN conjunct1, THEN mp, OF h]
  note c1 = t1 [of ex_env "ustr ''m1''" w0]
  note c2 = t2 [of ex_env "ustr ''m1''" w0]
  note c3 = t3 [of ex_env "ustr ''m1''" None None "[]" w0]
  show ?thesis
    by (rule conjI [OF f conjI [OF c1 conjI [OF s conjI [OF c2 conjI [OF n c3]]]]])
qed


end
